theory Spec2Isabelle
  imports Complex_Main "HOL-Library.Sublist"
begin

section \<open>Python values shared by both scripts\<close>

text \<open>
  A Python \<open>str\<close> is modelled as a HOL \<open>string\<close>, each \<open>char\<close> read as one code point
  below 256, so \<open>length\<close> is Python's \<open>len\<close> on such text. Exceptions are values: a
  call that can raise returns \<open>exn + 'a\<close>, with \<open>Inl\<close> the exception. \<open>SystemExit n\<close> is
  what \<open>sys.exit(n)\<close> raises; uncaught, it ends the process with exit code \<open>n\<close>.
  \<open>KeyboardInterrupt\<close> and \<open>SystemExit\<close> derive from \<open>BaseException\<close> only, every
  other constructor from \<open>Exception\<close>. Console output (\<open>print\<close>, \<open>logging\<close>) is not
  modelled.
\<close>

datatype exn =
    KeyError string
  | NotImplementedError string
  | IndexError
  | OtherException string
  | KeyboardInterrupt
  | SystemExit int

fun is_Exception :: "exn \<Rightarrow> bool" where
  "is_Exception KeyboardInterrupt = False"
| "is_Exception (SystemExit n) = False"
| "is_Exception e = True"

subsection \<open>String operations of the standard library\<close>

text \<open>\<open>s.startswith(p)\<close> and \<open>sub in s\<close>.\<close>

definition startswith :: "string \<Rightarrow> string \<Rightarrow> bool" where
  "startswith s p = prefix p s"

fun contains :: "string \<Rightarrow> string \<Rightarrow> bool" where
  "contains [] sub = (sub = [])"
| "contains (c # cs) sub = (prefix sub (c # cs) \<or> contains cs sub)"

text \<open>
  \<open>s.split(sep)\<close> for a non-empty \<open>sep\<close>: a scan from the left that cuts at every
  occurrence of \<open>sep\<close> and resumes behind it. \<open>acc\<close> holds the current part, reversed.
\<close>

fun split_from :: "string \<Rightarrow> string \<Rightarrow> string \<Rightarrow> string list" where
  "split_from sep acc [] = [rev acc]"
| "split_from sep acc (c # cs) =
     (if prefix sep (c # cs)
      then rev acc # split_from sep [] (drop (length sep - 1) cs)
      else split_from sep (c # acc) cs)"

definition py_split :: "string \<Rightarrow> string \<Rightarrow> string list" where
  "py_split s sep = split_from sep [] s"

text \<open>\<open>sep.join(xs)\<close>.\<close>

fun py_join :: "string \<Rightarrow> string list \<Rightarrow> string" where
  "py_join sep [] = []"
| "py_join sep [x] = x"
| "py_join sep (x # y # ys) = x @ sep @ py_join sep (y # ys)"

text \<open>
  \<open>s.replace(old, new)\<close> for a non-empty \<open>old\<close> replaces the occurrences that
  \<open>split\<close> cuts at, so it is \<open>new.join(s.split(old))\<close>.
\<close>

definition py_replace :: "string \<Rightarrow> string \<Rightarrow> string \<Rightarrow> string" where
  "py_replace s old new = py_join new (py_split s old)"

text \<open>
  \<open>s.strip()\<close> removes leading and trailing whitespace; \<open>is_space\<close> lists the code
  points below 256 for which \<open>str.isspace\<close> holds.
\<close>

definition is_space :: "char \<Rightarrow> bool" where
  "is_space c = (of_char c \<in> {9, 10, 11, 12, 13, 28, 29, 30, 31, 32, 133, 160 :: nat})"

definition strip :: "string \<Rightarrow> string" where
  "strip s = rev (dropWhile is_space (rev (dropWhile is_space s)))"

text \<open>\<open>str(n)\<close> for an \<open>int\<close>, and what an f-string renders for \<open>None\<close>.\<close>

definition digit_char :: "nat \<Rightarrow> char" where
  "digit_char d = ''0123456789'' ! d"

fun str_nat :: "nat \<Rightarrow> string" where
  "str_nat n = (if n < 10 then [digit_char n] else str_nat (n div 10) @ [digit_char (n mod 10)])"

definition str_int :: "int \<Rightarrow> string" where
  "str_int i = (if i < 0 then CHR ''-'' # str_nat (nat (- i)) else str_nat (nat i))"

fun str_opt :: "string option \<Rightarrow> string" where
  "str_opt None = ''None''"
| "str_opt (Some s) = s"

text \<open>Truthiness of an optional string: \<open>None\<close> and \<open>""\<close> are false.\<close>

fun truthy :: "string option \<Rightarrow> bool" where
  "truthy None = False"
| "truthy (Some s) = (s \<noteq> [])"

section \<open>generate_integrated_fast.py\<close>

subsection \<open>The external library\<close>

text \<open>
  The package \<open>wan\<close> is not part of the repository. What the script uses of it is a
  parameter of the model, the record \<open>wan_lib\<close>: the tables \<open>WAN_CONFIGS\<close> and
  \<open>SIZE_CONFIGS\<close> as maps, the pipeline constructor \<open>wan.WanVace\<close>, the pipeline's
  two methods and \<open>cache_video\<close> as functions that return or raise. Pipelines and
  tensors are opaque handles. Of a configuration only \<open>sample_fps\<close> is read.
  \<open>clock\<close> is what \<open>datetime.now().strftime("%Y%m%d_%H%M%S")\<close> gives, and \<open>entropy\<close>
  the random bits the next draw of \<open>random\<close> consumes.
\<close>

type_synonym pipeline = nat
type_synonym tensor = nat

record cfg =
  sample_fps :: int

record prepare_args =
  pa_src_video :: "tensor option list"
  pa_src_mask :: "tensor option list"
  pa_ref_images :: "string list list option"
  pa_frame_num :: int
  pa_size :: "int \<times> int"
  pa_device :: int

record generate_args =
  ga_prompt :: string
  ga_src_video :: tensor
  ga_src_mask :: tensor
  ga_ref_images :: tensor
  ga_size :: "int \<times> int"
  ga_frame_num :: int
  ga_shift :: real
  ga_sample_solver :: string
  ga_sampling_steps :: int
  ga_guide_scale :: real
  ga_seed :: int
  ga_offload_model :: bool

record wan_lib =
  WAN_CONFIGS :: "string \<rightharpoonup> cfg"
  SIZE_CONFIGS :: "string \<rightharpoonup> int \<times> int"
  WanVace :: "cfg \<Rightarrow> string option \<Rightarrow> int \<Rightarrow> exn + pipeline"
  prepare_source :: "pipeline \<Rightarrow> prepare_args \<Rightarrow> exn + tensor \<times> tensor \<times> tensor"
  pipeline_generate :: "pipeline \<Rightarrow> generate_args \<Rightarrow> exn + tensor"
  cache_video :: "tensor \<Rightarrow> string \<Rightarrow> int \<Rightarrow> exn + unit"
  clock :: string
  entropy :: nat

text \<open>
  The calls a run makes to its collaborators, in order. Every function of this script
  returns the events of its own run beside its result.
\<close>

datatype event =
    Init string "string option" int
  | LoadPipeline cfg "string option" int
  | Randint int int
  | PrepareSource prepare_args
  | PipelineGenerate generate_args
  | CacheVideo string

text \<open>
  \<open>random.randint(a, b)\<close> returns an integer \<open>N\<close> with \<open>a \<le> N \<le> b\<close>; the model
  reduces the entropy into that range. \<open>sys.maxsize\<close> is that of a 64-bit build.
\<close>

definition randint :: "int \<Rightarrow> int \<Rightarrow> nat \<Rightarrow> int" where
  "randint a b r = a + int (r mod nat (b - a + 1))"

definition sys_maxsize :: int where
  "sys_maxsize = 2 ^ 63 - 1"

subsection \<open>WanFastGenerator\<close>

record WanFastGenerator =
  task :: string
  ckpt_dir :: "string option"
  device_id :: int
  cfg :: cfg
  pipeline :: pipeline

text \<open>
  \<open>WanFastGenerator.__init__\<close>: the configuration lookup comes first and raises
  \<open>KeyError\<close> for a task that is no key of \<open>WAN_CONFIGS\<close>; then the pipeline is loaded
  for a task that contains \<open>vace\<close>, and any other task raises \<open>NotImplementedError\<close>.
\<close>

definition WanFastGenerator_init ::
  "wan_lib \<Rightarrow> string \<Rightarrow> string option \<Rightarrow> int \<Rightarrow> (exn + WanFastGenerator) \<times> event list" where
  "WanFastGenerator_init lib task_arg ckpt dev =
     (case WAN_CONFIGS lib task_arg of
        None \<Rightarrow> (Inl (KeyError task_arg), [Init task_arg ckpt dev])
      | Some c \<Rightarrow>
          if contains task_arg ''vace''
          then (case WanVace lib c ckpt dev of
                  Inl e \<Rightarrow> (Inl e, [Init task_arg ckpt dev, LoadPipeline c ckpt dev])
                | Inr p \<Rightarrow>
                    (Inr \<lparr>task = task_arg, ckpt_dir = ckpt, device_id = dev, cfg = c, pipeline = p\<rparr>,
                     [Init task_arg ckpt dev, LoadPipeline c ckpt dev]))
          else (Inl (NotImplementedError (''Task '' @ task_arg @ '' not yet supported in fast mode'')),
                [Init task_arg ckpt dev]))"

subsection \<open>The model cache\<close>

text \<open>
  The process state: instances live in a store and are named by their address, so two
  references are the same instance exactly when the addresses are equal. \<open>MODEL_CACHE\<close>
  is the global dictionary, from cache keys to addresses.
\<close>

type_synonym addr = nat

record state =
  MODEL_CACHE :: "string \<rightharpoonup> addr"
  store :: "WanFastGenerator list"

definition initial_state :: state where
  "initial_state = \<lparr>MODEL_CACHE = Map.empty, store = []\<rparr>"

definition cache_key :: "string \<Rightarrow> string option \<Rightarrow> int \<Rightarrow> string" where
  "cache_key task_arg ckpt dev = task_arg @ ''_'' @ str_opt ckpt @ ''_'' @ str_int dev"

text \<open>
  \<open>get_generator\<close>: on a miss the constructor runs and only its result is stored, so a
  constructor that raises leaves the dictionary as it was.
\<close>

definition get_generator ::
  "wan_lib \<Rightarrow> state \<Rightarrow> string \<Rightarrow> string option \<Rightarrow> int \<Rightarrow> (exn + addr) \<times> state \<times> event list" where
  "get_generator lib st task_arg ckpt dev =
     (let key = cache_key task_arg ckpt dev in
      case MODEL_CACHE st key of
        None \<Rightarrow>
          (case WanFastGenerator_init lib task_arg ckpt dev of
             (Inl e, evs) \<Rightarrow> (Inl e, st, evs)
           | (Inr g, evs) \<Rightarrow>
               (Inr (length (store st)),
                \<lparr>MODEL_CACHE = (MODEL_CACHE st)(key \<mapsto> length (store st)), store = store st @ [g]\<rparr>,
                evs))
      | Some a \<Rightarrow> (Inr a, st, []))"

text \<open>How often a run entered the constructor, and how often it loaded a pipeline.\<close>

definition constructions :: "event list \<Rightarrow> nat" where
  "constructions evs = length (filter (\<lambda>e. case e of Init t c d \<Rightarrow> True | _ \<Rightarrow> False) evs)"

definition pipeline_loads :: "event list \<Rightarrow> nat" where
  "pipeline_loads evs = length (filter (\<lambda>e. case e of LoadPipeline c k d \<Rightarrow> True | _ \<Rightarrow> False) evs)"

subsection \<open>WanFastGenerator.generate\<close>

record gen_params =
  prompt :: string
  src_ref_images :: "string option"
  save_file :: "string option"
  size_arg :: string
  frame_num :: int
  sample_steps :: int
  sample_shift :: real
  sample_solver :: string
  guide_scale :: real
  base_seed :: int
  offload_model :: bool

text \<open>
  The defaults of the signature, for a given prompt.
\<close>

definition default_params :: "string \<Rightarrow> gen_params" where
  "default_params pr =
     \<lparr>prompt = pr, src_ref_images = None, save_file = None, size_arg = ''832*480'',
      frame_num = 41, sample_steps = 25, sample_shift = 16, sample_solver = ''unipc'',
      guide_scale = 5, base_seed = - 1, offload_model = True\<rparr>"

text \<open>
  The file name synthesised when \<open>save_file\<close> is \<open>None\<close>:
  \<open>f"{self.task}_{size}_{formatted_prompt}_{formatted_time}.mp4"\<close>.
\<close>

definition formatted_prompt :: "string \<Rightarrow> string" where
  "formatted_prompt pr = take 50 (py_replace (py_replace pr '' '' ''_'') ''/'' ''_'')"

definition default_save_file :: "wan_lib \<Rightarrow> WanFastGenerator \<Rightarrow> gen_params \<Rightarrow> string" where
  "default_save_file lib self p =
     task self @ ''_'' @ size_arg p @ ''_'' @ formatted_prompt (prompt p) @ ''_'' @ clock lib @ ''.mp4''"

text \<open>
  \<open>generate\<close>, in the order the interpreter evaluates it: the seed is normalised, the
  reference images are split, the arguments of \<open>prepare_source\<close> are evaluated (among
  them \<open>SIZE_CONFIGS[size]\<close>, which raises \<open>KeyError\<close> for an unknown size) and only
  then the pipeline is called. An exception of a collaborator propagates.
\<close>

definition generate ::
  "wan_lib \<Rightarrow> WanFastGenerator \<Rightarrow> gen_params \<Rightarrow> (exn + string) \<times> event list" where
  "generate lib self p =
     (let (seed, evs0) =
            (if base_seed p < 0
             then (randint 0 sys_maxsize (entropy lib), [Randint 0 sys_maxsize])
             else (base_seed p, []));
          ref_images_list =
            (case src_ref_images p of
               None \<Rightarrow> None
             | Some s \<Rightarrow> if s = [] then None else Some [py_split s '','']) in
      case SIZE_CONFIGS lib (size_arg p) of
        None \<Rightarrow> (Inl (KeyError (size_arg p)), evs0)
      | Some wh \<Rightarrow>
          (let pa = \<lparr>pa_src_video = [None], pa_src_mask = [None], pa_ref_images = ref_images_list,
                     pa_frame_num = frame_num p, pa_size = wh, pa_device = device_id self\<rparr> in
           case prepare_source lib (pipeline self) pa of
             Inl e \<Rightarrow> (Inl e, evs0 @ [PrepareSource pa])
           | Inr (src_video, src_mask, src_ref_images_tensor) \<Rightarrow>
               (let ga = \<lparr>ga_prompt = prompt p, ga_src_video = src_video, ga_src_mask = src_mask,
                          ga_ref_images = src_ref_images_tensor, ga_size = wh,
                          ga_frame_num = frame_num p, ga_shift = sample_shift p,
                          ga_sample_solver = sample_solver p, ga_sampling_steps = sample_steps p,
                          ga_guide_scale = guide_scale p, ga_seed = seed,
                          ga_offload_model = offload_model p\<rparr> in
                case pipeline_generate lib (pipeline self) ga of
                  Inl e \<Rightarrow> (Inl e, evs0 @ [PrepareSource pa, PipelineGenerate ga])
                | Inr video \<Rightarrow>
                    (let out = (case save_file p of
                                  None \<Rightarrow> default_save_file lib self p
                                | Some f \<Rightarrow> f) in
                     case cache_video lib video out (sample_fps (cfg self)) of
                       Inl e \<Rightarrow>
                         (Inl e, evs0 @ [PrepareSource pa, PipelineGenerate ga, CacheVideo out])
                     | Inr u \<Rightarrow>
                         (Inr out, evs0 @ [PrepareSource pa, PipelineGenerate ga, CacheVideo out])))))"

text \<open>The pipeline calls of a run: the arguments of each \<open>prepare_source\<close> and each
  \<open>generate\<close> call, and the files written.\<close>

fun prepare_calls :: "event list \<Rightarrow> prepare_args list" where
  "prepare_calls [] = []"
| "prepare_calls (PrepareSource a # es) = a # prepare_calls es"
| "prepare_calls (e # es) = prepare_calls es"

fun generate_calls :: "event list \<Rightarrow> generate_args list" where
  "generate_calls [] = []"
| "generate_calls (PipelineGenerate a # es) = a # generate_calls es"
| "generate_calls (e # es) = generate_calls es"

fun cache_video_calls :: "event list \<Rightarrow> string list" where
  "cache_video_calls [] = []"
| "cache_video_calls (CacheVideo f # es) = f # cache_video_calls es"
| "cache_video_calls (e # es) = cache_video_calls es"

subsection \<open>An example library\<close>

text \<open>
  A library for the concrete runs below: the task and size keys are some of the
  upstream tables, every collaborator succeeds.
\<close>

definition example_lib :: wan_lib where
  "example_lib =
     \<lparr>WAN_CONFIGS = [''vace-1.3B'' \<mapsto> \<lparr>sample_fps = 16\<rparr>, ''vace-14B'' \<mapsto> \<lparr>sample_fps = 16\<rparr>,
                     ''t2v-14B'' \<mapsto> \<lparr>sample_fps = 16\<rparr>],
      SIZE_CONFIGS = [''832*480'' \<mapsto> (832, 480), ''1280*720'' \<mapsto> (1280, 720)],
      WanVace = (\<lambda>c k d. Inr 7),
      prepare_source = (\<lambda>pl a. Inr (1, 2, 3)),
      pipeline_generate = (\<lambda>pl a. Inr 4),
      cache_video = (\<lambda>v f fps. Inr ()),
      clock = ''20240101_120000'',
      entropy = 123456789\<rparr>"

definition example_generator :: WanFastGenerator where
  "example_generator =
     \<lparr>task = ''vace-1.3B'', ckpt_dir = Some ''./ckpt'', device_id = 0,
      cfg = \<lparr>sample_fps = 16\<rparr>, pipeline = 7\<rparr>"

section \<open>generate_video_from_image.py\<close>

subsection \<open>The reasoning file\<close>

record reasoning_data =
  reasoning :: string
  original_prompt :: string

definition MARKER :: string where
  "MARKER = ''--- END OF REASONING ---''"

definition CUE :: string where
  "CUE = ''Generating image with prompt:''"

text \<open>The test of the loop: is this line a cue line?\<close>

definition is_cue_line :: "string \<Rightarrow> bool" where
  "is_cue_line line = (contains line CUE \<or> startswith (strip line) ''Cartoon'')"

text \<open>
  The \<open>for\<close> loop over the lines: at the first cue line, the stripped non-empty lines
  from that line on are joined with a blank, the cue phrase is removed and the result
  is stripped; then the loop breaks. Without a cue line the prompt stays empty.
\<close>

fun scan_lines :: "string list \<Rightarrow> string" where
  "scan_lines [] = []"
| "scan_lines (line # rest) =
     (if is_cue_line line
      then strip (py_replace (py_join '' '' (filter (\<lambda>l. l \<noteq> []) (map strip (line # rest)))) CUE [])
      else scan_lines rest)"

text \<open>
  The body of \<open>read_reasoning_file\<close> behind the read, on the content of the file.
  Only the first two parts of the split are used.
\<close>

definition parse_reasoning :: "string \<Rightarrow> reasoning_data" where
  "parse_reasoning content =
     (let parts = py_split content MARKER in
      if length parts \<ge> 2
      then (let remaining = strip (parts ! 1);
                found = scan_lines (py_split remaining [CHR 10]) in
            \<lparr>reasoning = strip (parts ! 0),
             original_prompt = (if found = [] then remaining else found)\<rparr>)
      else \<lparr>reasoning = take (length content div 2) content,
            original_prompt = drop (length content div 2) content\<rparr>)"

subsection \<open>The operating system and the network\<close>

text \<open>
  What the script asks of its surroundings is a parameter, the record \<open>os_env\<close>:
  \<open>os.path.exists\<close>, \<open>os.environ.get\<close>, reading a text file, reading a file in binary
  and encoding it in base64, \<open>Path(p).suffix.lower()\<close>, the request to the hosted
  model (answered by the texts of the content blocks, or an exception), \<open>subprocess.run\<close>
  (answered by the return code) and \<open>sys.executable\<close>.
\<close>

record claude_request =
  rq_api_key :: "string option"
  rq_model :: string
  rq_max_tokens :: int
  rq_temperature :: real
  rq_system :: string
  rq_media_type :: string
  rq_image_data :: string
  rq_text :: string

record os_env =
  path_exists :: "string \<Rightarrow> bool"
  environ :: "string \<rightharpoonup> string"
  read_text :: "string \<Rightarrow> exn + string"
  read_base64 :: "string \<Rightarrow> exn + string"
  suffix_lower :: "string \<Rightarrow> string"
  messages_create :: "claude_request \<Rightarrow> exn + string list"
  subprocess_run :: "string list \<Rightarrow> exn + int"
  sys_executable :: string

datatype cli_event =
    PathExists string
  | ReadText string
  | ReadImage string
  | ClaudeRequest claude_request
  | SubprocessRun "string list"

definition read_reasoning_file :: "os_env \<Rightarrow> string \<Rightarrow> exn + reasoning_data" where
  "read_reasoning_file env text_path =
     (case read_text env text_path of
        Inl e \<Rightarrow> Inl e
      | Inr content \<Rightarrow> Inr (parse_reasoning content))"

subsection \<open>The request to the hosted model\<close>

definition media_type_map :: "string \<rightharpoonup> string" where
  "media_type_map =
     [''.png'' \<mapsto> ''image/png'', ''.jpg'' \<mapsto> ''image/jpeg'', ''.jpeg'' \<mapsto> ''image/jpeg'',
      ''.gif'' \<mapsto> ''image/gif'', ''.webp'' \<mapsto> ''image/webp'']"

definition system_prompt :: string where
  "system_prompt = py_join [CHR 10]
     [''You are an expert in video generation and creative direction. Your task is to take a static image and its creation reasoning, and generate an engaging video generation prompt that brings the image to life with motion, dynamics, and cinematic appeal.'',
      '''',
      ''Key principles:'',
      ''1. Preserve the core visual elements and style from the original image'',
      ''2. Add motion, camera movements, and dynamic elements appropriate for video'',
      ''3. Consider cinematography: camera angles, movements (pan, zoom, tracking), lighting changes'',
      ''4. Add temporal elements: how things change over time, sequences of actions'',
      ''5. Maintain the tone and atmosphere of the original'',
      ''6. Keep the prompt concise but detailed (50-100 words)'',
      ''7. Make it suitable for state-of-the-art video generation models'']"

definition user_prompt :: "string \<Rightarrow> string \<Rightarrow> string" where
  "user_prompt reasoning_arg original_prompt_arg = py_join [CHR 10]
     [''I have a generated image and want to create an interesting video from it.'',
      '''',
      ''ORIGINAL IMAGE CREATION REASONING:'',
      reasoning_arg,
      '''',
      ''ORIGINAL IMAGE PROMPT:'',
      original_prompt_arg,
      '''',
      ''Please analyze the image and create an optimized video generation prompt that:'',
      ''1. Captures the essence and style of the static image'',
      ''2. Adds appropriate motion and camera dynamics to make it cinematic'',
      ''3. Maintains visual consistency with the original'',
      ''4. Creates an engaging 3-5 second video narrative'',
      ''5. Is optimized for the Wan 2.1 video generation model'',
      '''',
      ''OUTPUT FORMAT:'',
      ''Provide ONLY the video generation prompt, nothing else. No explanations, no preamble, just the prompt text.'']"

text \<open>
  \<open>generate_video_prompt_with_claude\<close>: the image is read and encoded, one request is
  sent, and the stripped text of the first content block is the prompt. Whatever a step
  raises propagates to the caller.
\<close>

definition generate_video_prompt_with_claude ::
  "os_env \<Rightarrow> string \<Rightarrow> string \<Rightarrow> string \<Rightarrow> string option \<Rightarrow> (exn + string) \<times> cli_event list" where
  "generate_video_prompt_with_claude env image_path reasoning_arg original_prompt_arg key =
     (let media_type = (case media_type_map (suffix_lower env image_path) of
                          None \<Rightarrow> ''image/png''
                        | Some m \<Rightarrow> m) in
      case read_base64 env image_path of
        Inl e \<Rightarrow> (Inl e, [ReadImage image_path])
      | Inr image_data \<Rightarrow>
          (let rq = \<lparr>rq_api_key = key, rq_model = ''claude-3-5-sonnet-20241022'',
                     rq_max_tokens = 500, rq_temperature = 7 / 10, rq_system = system_prompt,
                     rq_media_type = media_type, rq_image_data = image_data,
                     rq_text = user_prompt reasoning_arg original_prompt_arg\<rparr> in
           case messages_create env rq of
             Inl e \<Rightarrow> (Inl e, [ReadImage image_path, ClaudeRequest rq])
           | Inr blocks \<Rightarrow>
               (case blocks of
                  [] \<Rightarrow> (Inl IndexError, [ReadImage image_path, ClaudeRequest rq])
                | b # bs \<Rightarrow> (Inr (strip b), [ReadImage image_path, ClaudeRequest rq]))))"

subsection \<open>The external process\<close>

text \<open>The command line of \<open>generate_video\<close>; an empty list and \<open>None\<close> are both false.\<close>

definition build_cmd ::
  "os_env \<Rightarrow> string \<Rightarrow> string \<Rightarrow> string \<Rightarrow> string \<Rightarrow> string option \<Rightarrow> string list option \<Rightarrow> string list" where
  "build_cmd env prompt_arg task_arg size_str ckpt output_dir additional_args =
     [sys_executable env, ''generate.py'', ''--task'', task_arg, ''--size'', size_str,
      ''--ckpt_dir'', ckpt, ''--prompt'', prompt_arg]
     @ (case output_dir of
          None \<Rightarrow> []
        | Some d \<Rightarrow> if d = [] then [] else [''--output_dir'', d])
     @ (case additional_args of
          None \<Rightarrow> []
        | Some xs \<Rightarrow> xs)"

text \<open>
  \<open>generate_video\<close> runs the command and, on a return code other than 0, leaves through
  \<open>sys.exit(result.returncode)\<close>.
\<close>

definition generate_video ::
  "os_env \<Rightarrow> string \<Rightarrow> string \<Rightarrow> string \<Rightarrow> string \<Rightarrow> string option \<Rightarrow> string list option
     \<Rightarrow> (exn + unit) \<times> cli_event list" where
  "generate_video env prompt_arg task_arg size_str ckpt output_dir additional_args =
     (let cmd = build_cmd env prompt_arg task_arg size_str ckpt output_dir additional_args in
      case subprocess_run env cmd of
        Inl e \<Rightarrow> (Inl e, [SubprocessRun cmd])
      | Inr returncode \<Rightarrow>
          if returncode \<noteq> 0 then (Inl (SystemExit returncode), [SubprocessRun cmd])
          else (Inr (), [SubprocessRun cmd]))"

subsection \<open>main\<close>

record cli_args =
  arg_image :: string
  arg_text :: string
  arg_api_key :: "string option"
  arg_task :: string
  arg_size :: string
  arg_ckpt_dir :: string
  arg_output_dir :: "string option"
  arg_skip_claude :: bool
  unknown_args :: "string list"

text \<open>
  \<open>main\<close> after the argument parser. The call of \<open>generate_video\<close> at its end is
  commented out in the source, so the model makes none. \<open>main\<close> returns nothing; the
  model returns the last value of its local \<open>video_prompt\<close>. An exception caught by
  \<open>except Exception\<close> is one for which \<open>is_Exception\<close> holds.
\<close>

definition main :: "os_env \<Rightarrow> cli_args \<Rightarrow> (exn + string) \<times> cli_event list" where
  "main env args =
     (if \<not> path_exists env (arg_image args)
      then (Inl (SystemExit 1), [PathExists (arg_image args)])
      else if \<not> path_exists env (arg_text args)
      then (Inl (SystemExit 1), [PathExists (arg_image args), PathExists (arg_text args)])
      else
        (let evs = [PathExists (arg_image args), PathExists (arg_text args)];
             api_key = (if truthy (arg_api_key args) then arg_api_key args
                        else environ env ''ANTHROPIC_API_KEY'') in
         if \<not> truthy api_key \<and> \<not> arg_skip_claude args
         then (Inl (SystemExit 1), evs)
         else
           (case read_reasoning_file env (arg_text args) of
              Inl e \<Rightarrow> (Inl e, evs @ [ReadText (arg_text args)])
            | Inr data \<Rightarrow>
                if arg_skip_claude args
                then (Inr (original_prompt data), evs @ [ReadText (arg_text args)])
                else
                  (case generate_video_prompt_with_claude env (arg_image args)
                          (reasoning data) (original_prompt data) api_key of
                     (Inl e, evs') \<Rightarrow>
                       if is_Exception e
                       then (Inr (original_prompt data), evs @ [ReadText (arg_text args)] @ evs')
                       else (Inl e, evs @ [ReadText (arg_text args)] @ evs')
                   | (Inr video_prompt, evs') \<Rightarrow>
                       (Inr video_prompt, evs @ [ReadText (arg_text args)] @ evs')))))"

text \<open>The network requests and the child processes of a run.\<close>

fun network_calls :: "cli_event list \<Rightarrow> claude_request list" where
  "network_calls [] = []"
| "network_calls (ClaudeRequest rq # es) = rq # network_calls es"
| "network_calls (e # es) = network_calls es"

fun subprocess_calls :: "cli_event list \<Rightarrow> string list list" where
  "subprocess_calls [] = []"
| "subprocess_calls (SubprocessRun cmd # es) = cmd # subprocess_calls es"
| "subprocess_calls (e # es) = subprocess_calls es"

subsection \<open>An example environment\<close>

text \<open>
  An environment for the concrete runs below: both default files exist, no key is set,
  the hosted model is unreachable and the child process returns 7.
\<close>

definition example_env :: os_env where
  "example_env =
     \<lparr>path_exists = (\<lambda>p. p \<in> {''video_gen_prompts/generated_image.png'',
                              ''video_gen_prompts/prompt+reasoning.txt''}),
      environ = Map.empty,
      read_text = (\<lambda>p. Inr (''thinking '' @ MARKER @ [CHR 10] @ ''Cartoon cat'')),
      read_base64 = (\<lambda>p. Inr ''aGVsbG8=''),
      suffix_lower = (\<lambda>p. ''.png''),
      messages_create = (\<lambda>rq. Inl (OtherException ''APIConnectionError'')),
      subprocess_run = (\<lambda>cmd. Inr 7),
      sys_executable = ''/usr/bin/python3''\<rparr>"

definition example_args :: cli_args where
  "example_args =
     \<lparr>arg_image = ''video_gen_prompts/generated_image.png'',
      arg_text = ''video_gen_prompts/prompt+reasoning.txt'',
      arg_api_key = None, arg_task = ''t2v-14B'', arg_size = ''1280*720'',
      arg_ckpt_dir = ''./Wan2.1-T2V-14B'', arg_output_dir = None,
      arg_skip_claude = False, unknown_args = []\<rparr>"

section \<open>Properties of generate_integrated_fast.py\<close>

subsection \<open>Construction\<close>

lemma init_events:
  "WanFastGenerator_init lib t c d = (Inr g, evs) \<Longrightarrow>
     constructions evs = 1 \<and> pipeline_loads evs = 1 \<and> task g = t \<and> ckpt_dir g = c \<and> device_id g = d"
  by (auto simp: WanFastGenerator_init_def constructions_def pipeline_loads_def
           split: option.splits if_splits sum.splits)

lemma init_fail_events:
  "WanFastGenerator_init lib t c d = (Inl e, evs) \<Longrightarrow> constructions evs = 1"
  by (auto simp: WanFastGenerator_init_def constructions_def
           split: option.splits if_splits sum.splits)

text \<open>
  C2, as the specification states it: every task outside the supported family makes the
  constructor raise \<open>NotImplementedError\<close>. The task \<open>foo\<close> does not contain \<open>vace\<close>
  and is no key of the configuration table, and the constructor raises \<open>KeyError\<close>:
  the table lookup comes before the test of the task family.
\<close>

theorem WanFastGenerator_init_unknown_task:
  "\<not> contains ''foo'' ''vace'' \<and>
   fst (WanFastGenerator_init example_lib ''foo'' None 0) = Inl (KeyError ''foo'')"
  by (simp add: WanFastGenerator_init_def example_lib_def)

text \<open>
  C2, amended: for every task that does not contain \<open>vace\<close> the constructor raises, so
  no instance exists on which \<open>generate\<close> could be called, and it raises before any
  pipeline is loaded. The exception is \<open>NotImplementedError\<close> when the task is a key of
  \<open>WAN_CONFIGS\<close> and \<open>KeyError\<close> when it is not.
\<close>

theorem WanFastGenerator_init_unsupported:
  assumes "\<not> contains task_arg ''vace''"
  shows "fst (WanFastGenerator_init lib task_arg ckpt dev) =
           Inl (if task_arg \<in> dom (WAN_CONFIGS lib)
                then NotImplementedError (''Task '' @ task_arg @ '' not yet supported in fast mode'')
                else KeyError task_arg) \<and>
         pipeline_loads (snd (WanFastGenerator_init lib task_arg ckpt dev)) = 0"
  using assms
  by (auto simp: WanFastGenerator_init_def pipeline_loads_def split: option.splits)

theorem WanFastGenerator_init_unsupported_witness:
  "\<not> contains ''t2v-14B'' ''vace'' \<and>
   fst (WanFastGenerator_init example_lib ''t2v-14B'' (Some ''./ckpt'') 0) =
     Inl (NotImplementedError ''Task t2v-14B not yet supported in fast mode'') \<and>
   pipeline_loads (snd (WanFastGenerator_init example_lib ''t2v-14B'' (Some ''./ckpt'') 0)) = 0"
  using WanFastGenerator_init_unsupported [of "''t2v-14B''" example_lib "Some ''./ckpt''" 0]
  by (simp add: example_lib_def)

subsection \<open>The cache\<close>

lemma get_generator_hit:
  "MODEL_CACHE st (cache_key t c d) = Some a \<Longrightarrow> get_generator lib st t c d = (Inr a, st, [])"
  by (simp add: get_generator_def)

lemma get_generator_miss_ok:
  "MODEL_CACHE st (cache_key t c d) = None \<Longrightarrow> WanFastGenerator_init lib t c d = (Inr g, evs) \<Longrightarrow>
   get_generator lib st t c d =
     (Inr (length (store st)),
      \<lparr>MODEL_CACHE = (MODEL_CACHE st)(cache_key t c d \<mapsto> length (store st)), store = store st @ [g]\<rparr>,
      evs)"
  by (simp add: get_generator_def)

lemma get_generator_miss_fail:
  "MODEL_CACHE st (cache_key t c d) = None \<Longrightarrow> WanFastGenerator_init lib t c d = (Inl e, evs) \<Longrightarrow>
   get_generator lib st t c d = (Inl e, st, evs)"
  by (simp add: get_generator_def)

text \<open>
  C3: when an acquire returns an instance, a second acquire with the same task,
  checkpoint directory and device id returns the instance at the same address and
  leaves the state as it is. Across the two calls the constructor is entered, and a
  pipeline loaded, exactly once when the key was not cached before the first call (and
  not at all when it was); in the first case the instance is the one built for these
  three arguments.
\<close>

theorem get_generator_twice:
  assumes "get_generator lib st t c d = (Inr a, st1, evs1)"
      and "get_generator lib st1 t c d = (r2, st2, evs2)"
  shows "r2 = Inr a \<and> st2 = st1 \<and>
         constructions (evs1 @ evs2) = (if cache_key t c d \<in> dom (MODEL_CACHE st) then 0 else 1) \<and>
         pipeline_loads (evs1 @ evs2) = (if cache_key t c d \<in> dom (MODEL_CACHE st) then 0 else 1) \<and>
         (cache_key t c d \<notin> dom (MODEL_CACHE st) \<longrightarrow>
            a < length (store st1) \<and> task (store st1 ! a) = t \<and>
            ckpt_dir (store st1 ! a) = c \<and> device_id (store st1 ! a) = d)"
proof (cases "MODEL_CACHE st (cache_key t c d)")
  case None
  obtain r evs where i: "WanFastGenerator_init lib t c d = (r, evs)"
    by (cases "WanFastGenerator_init lib t c d")
  from assms(1) None i obtain g where r: "r = Inr g"
    by (cases r) (auto simp: get_generator_def)
  from get_generator_miss_ok [OF None, of lib g evs] i r assms(1)
  have a: "a = length (store st)"
    and st1: "st1 = \<lparr>MODEL_CACHE = (MODEL_CACHE st)(cache_key t c d \<mapsto> length (store st)),
                     store = store st @ [g]\<rparr>"
    and e: "evs1 = evs"
    by simp_all
  from st1 a have hit: "MODEL_CACHE st1 (cache_key t c d) = Some a" by simp
  from i r have g: "constructions evs = 1 \<and> pipeline_loads evs = 1 \<and>
      task g = t \<and> ckpt_dir g = c \<and> device_id g = d"
    by (simp add: init_events)
  from assms(2) get_generator_hit [OF hit, of lib]
  have "r2 = Inr a \<and> st2 = st1 \<and> evs2 = []" by simp
  with g None e a st1 show ?thesis by (simp add: dom_def)
next
  case (Some b)
  from assms(1) get_generator_hit [OF Some, of lib] have 1: "a = b" "st1 = st" "evs1 = []"
    by simp_all
  with assms(2) get_generator_hit [OF Some, of lib] have "r2 = Inr a \<and> st2 = st1 \<and> evs2 = []"
    by simp
  with 1 Some show ?thesis by (simp add: dom_def constructions_def pipeline_loads_def)
qed

theorem get_generator_twice_witness:
  "fst (get_generator example_lib initial_state ''vace-1.3B'' (Some ''./ckpt'') 0) = Inr 0 \<and>
   fst (get_generator example_lib
          (fst (snd (get_generator example_lib initial_state ''vace-1.3B'' (Some ''./ckpt'') 0)))
          ''vace-1.3B'' (Some ''./ckpt'') 0) = Inr 0 \<and>
   constructions
     (snd (snd (get_generator example_lib initial_state ''vace-1.3B'' (Some ''./ckpt'') 0)) @
      snd (snd (get_generator example_lib
          (fst (snd (get_generator example_lib initial_state ''vace-1.3B'' (Some ''./ckpt'') 0)))
          ''vace-1.3B'' (Some ''./ckpt'') 0))) = 1"
proof -
  let ?run1 = "get_generator example_lib initial_state ''vace-1.3B'' (Some ''./ckpt'') 0"
  let ?run2 = "get_generator example_lib (fst (snd ?run1)) ''vace-1.3B'' (Some ''./ckpt'') 0"
  have r1: "fst ?run1 = Inr 0"
    by (simp add: get_generator_def WanFastGenerator_init_def example_lib_def initial_state_def)
  have k: "cache_key ''vace-1.3B'' (Some ''./ckpt'') 0 \<notin> dom (MODEL_CACHE initial_state)"
    by (simp add: initial_state_def)
  have 1: "?run1 = (Inr 0, fst (snd ?run1), snd (snd ?run1))"
    using r1 by (metis prod.collapse)
  have 2: "?run2 = (fst ?run2, fst (snd ?run2), snd (snd ?run2))"
    by simp
  from get_generator_twice [OF 1 2] k r1 show ?thesis by simp
qed

text \<open>
  C4: when the key is not cached and the constructor raises, \<open>get_generator\<close> raises the
  same exception and returns the state unchanged, so the dictionary still has no entry
  for the key; the constructor was entered once, and an acquire for the same key in
  the resulting state enters it once more.
\<close>

theorem get_generator_construction_fails:
  assumes "MODEL_CACHE st (cache_key t c d) = None"
      and "fst (WanFastGenerator_init lib t c d) = Inl e"
  shows "fst (get_generator lib st t c d) = Inl e \<and>
         fst (snd (get_generator lib st t c d)) = st \<and>
         MODEL_CACHE (fst (snd (get_generator lib st t c d))) (cache_key t c d) = None \<and>
         constructions (snd (snd (get_generator lib st t c d))) = 1 \<and>
         constructions (snd (snd (get_generator lib (fst (snd (get_generator lib st t c d))) t c d))) = 1"
proof -
  obtain evs where i: "WanFastGenerator_init lib t c d = (Inl e, evs)"
    using assms(2) by (cases "WanFastGenerator_init lib t c d") simp
  have g: "get_generator lib st t c d = (Inl e, st, evs)"
    using assms(1) i by (rule get_generator_miss_fail)
  from i have "constructions evs = 1" by (rule init_fail_events)
  with g assms(1) show ?thesis by simp
qed

theorem get_generator_construction_fails_witness:
  "MODEL_CACHE initial_state (cache_key ''t2v-14B'' (Some ''./ckpt'') 0) = None \<and>
   fst (get_generator example_lib initial_state ''t2v-14B'' (Some ''./ckpt'') 0) =
     Inl (NotImplementedError ''Task t2v-14B not yet supported in fast mode'') \<and>
   fst (snd (get_generator example_lib initial_state ''t2v-14B'' (Some ''./ckpt'') 0)) = initial_state \<and>
   constructions (snd (snd (get_generator example_lib
      (fst (snd (get_generator example_lib initial_state ''t2v-14B'' (Some ''./ckpt'') 0)))
      ''t2v-14B'' (Some ''./ckpt'') 0))) = 1"
proof -
  have a: "MODEL_CACHE initial_state (cache_key ''t2v-14B'' (Some ''./ckpt'') 0) = None"
    by (simp add: initial_state_def)
  have b: "fst (WanFastGenerator_init example_lib ''t2v-14B'' (Some ''./ckpt'') 0) =
             Inl (NotImplementedError ''Task t2v-14B not yet supported in fast mode'')"
    by (simp add: WanFastGenerator_init_def example_lib_def)
  from get_generator_construction_fails [OF a b] a show ?thesis by simp
qed

text \<open>
  C10: the key is not injective. The task \<open>vace-1.3B\<close> with checkpoint directory \<open>x_y\<close>
  and the task \<open>vace-1.3B_x\<close> with checkpoint directory \<open>y\<close> are different arguments
  with the same key. After an acquire for the first, an acquire for the second returns
  the address of the instance built for the first (its task is \<open>vace-1.3B\<close>, its
  checkpoint directory \<open>x_y\<close>) and enters no constructor, although in the empty cache
  the second raises \<open>KeyError\<close>.
\<close>

theorem cache_key_collision:
  "(''vace-1.3B'', Some ''x_y'', 0 :: int) \<noteq> (''vace-1.3B_x'', Some ''y'', 0) \<and>
   cache_key ''vace-1.3B'' (Some ''x_y'') 0 = cache_key ''vace-1.3B_x'' (Some ''y'') 0 \<and>
   fst (get_generator example_lib initial_state ''vace-1.3B'' (Some ''x_y'') 0) = Inr 0 \<and>
   get_generator example_lib
     (fst (snd (get_generator example_lib initial_state ''vace-1.3B'' (Some ''x_y'') 0)))
     ''vace-1.3B_x'' (Some ''y'') 0 =
   (Inr 0, fst (snd (get_generator example_lib initial_state ''vace-1.3B'' (Some ''x_y'') 0)), []) \<and>
   store (fst (snd (get_generator example_lib initial_state ''vace-1.3B'' (Some ''x_y'') 0))) ! 0 =
     \<lparr>task = ''vace-1.3B'', ckpt_dir = Some ''x_y'', device_id = 0,
      cfg = \<lparr>sample_fps = 16\<rparr>, pipeline = 7\<rparr> \<and>
   fst (get_generator example_lib initial_state ''vace-1.3B_x'' (Some ''y'') 0) =
     Inl (KeyError ''vace-1.3B_x'')"
  by (simp add: get_generator_def WanFastGenerator_init_def example_lib_def initial_state_def
      cache_key_def str_int_def digit_char_def)

subsection \<open>generate\<close>

lemma randint_range: "a \<le> b \<Longrightarrow> a \<le> randint a b r \<and> randint a b r \<le> b"
proof -
  assume ab: "a \<le> b"
  then have pos: "0 < nat (b - a + 1)" by simp
  have "r mod nat (b - a + 1) < nat (b - a + 1)" using pos by (rule mod_less_divisor)
  then have "int (r mod nat (b - a + 1)) < b - a + 1" using ab by linarith
  then show ?thesis by (simp add: randint_def)
qed

lemma generate_seeds:
  "set (map ga_seed (generate_calls (snd (generate lib self p))))
     \<subseteq> {if base_seed p < 0 then randint 0 sys_maxsize (entropy lib) else base_seed p}"
  by (auto simp: generate_def Let_def split: option.splits sum.splits prod.splits if_splits)

lemma generate_returns_one_call:
  "fst (generate lib self p) = Inr out \<Longrightarrow> length (generate_calls (snd (generate lib self p))) = 1"
  by (auto simp: generate_def Let_def split: option.splits sum.splits prod.splits if_splits)

text \<open>
  C5: every call of the pipeline's \<open>generate\<close> that a run of the facade makes carries
  the normalised seed. For a negative \<open>base_seed\<close> that is the draw
  \<open>random.randint(0, sys.maxsize)\<close>, which lies between 0 and \<open>sys.maxsize\<close> whatever
  the entropy; for a \<open>base_seed\<close> of 0 or more it is \<open>base_seed\<close> itself. A run that
  returns a file has made exactly one such call.
\<close>

theorem generate_seed:
  "(\<forall>ga \<in> set (generate_calls (snd (generate lib self p))).
      (base_seed p < 0 \<longrightarrow>
         ga_seed ga = randint 0 sys_maxsize (entropy lib) \<and> 0 \<le> ga_seed ga \<and> ga_seed ga \<le> sys_maxsize) \<and>
      (0 \<le> base_seed p \<longrightarrow> ga_seed ga = base_seed p)) \<and>
   (\<forall>out. fst (generate lib self p) = Inr out \<longrightarrow>
      length (generate_calls (snd (generate lib self p))) = 1)"
proof -
  have m: "0 \<le> randint 0 sys_maxsize (entropy lib) \<and> randint 0 sys_maxsize (entropy lib) \<le> sys_maxsize"
    using randint_range [of 0 sys_maxsize] by (simp add: sys_maxsize_def)
  have "\<forall>ga \<in> set (generate_calls (snd (generate lib self p))).
      ga_seed ga = (if base_seed p < 0 then randint 0 sys_maxsize (entropy lib) else base_seed p)"
    using generate_seeds [of lib self p] by auto
  with m show ?thesis using generate_returns_one_call [of lib self p] by auto
qed

theorem generate_seed_witness:
  "fst (generate example_lib example_generator (default_params ''a cat'')) =
     Inr ''vace-1.3B_832*480_a_cat_20240101_120000.mp4'' \<and>
   base_seed (default_params ''a cat'') < 0 \<and>
   map ga_seed (generate_calls (snd (generate example_lib example_generator (default_params ''a cat'')))) =
     [123456789] \<and>
   map ga_seed (generate_calls (snd (generate example_lib example_generator
      ((default_params ''a cat'')\<lparr>base_seed := 42\<rparr>)))) = [42]"
proof -
  have a: "fst (generate example_lib example_generator (default_params ''a cat'')) =
     Inr ''vace-1.3B_832*480_a_cat_20240101_120000.mp4''"
    by (simp add: generate_def example_lib_def example_generator_def default_params_def Let_def
        default_save_file_def formatted_prompt_def py_replace_def py_split_def)
  have b: "map ga_seed (generate_calls (snd (generate example_lib example_generator
      (default_params ''a cat'')))) = [123456789]"
    by (simp add: generate_def example_lib_def example_generator_def default_params_def Let_def
        randint_def sys_maxsize_def)
  have c: "map ga_seed (generate_calls (snd (generate example_lib example_generator
      ((default_params ''a cat'')\<lparr>base_seed := 42\<rparr>)))) = [42]"
    by (simp add: generate_def example_lib_def example_generator_def default_params_def Let_def)
  have d: "base_seed (default_params ''a cat'') < 0" by (simp add: default_params_def)
  from generate_seed [of example_lib example_generator "default_params ''a cat''"] a b c d
  show ?thesis by simp
qed

text \<open>
  C9: for a size that is a key of \<open>SIZE_CONFIGS\<close>, \<open>prepare_source\<close> is called once, with
  the resolution the table gives, and every call of the pipeline's \<open>generate\<close> carries
  the same resolution. For any other size the facade raises \<open>KeyError\<close> and the run has
  called neither \<open>prepare_source\<close> nor the pipeline's \<open>generate\<close> nor \<open>cache_video\<close>.
\<close>

theorem generate_size:
  "(\<forall>wh. SIZE_CONFIGS lib (size_arg p) = Some wh \<longrightarrow>
      map pa_size (prepare_calls (snd (generate lib self p))) = [wh] \<and>
      set (map ga_size (generate_calls (snd (generate lib self p)))) \<subseteq> {wh} \<and>
      (\<forall>out. fst (generate lib self p) = Inr out \<longrightarrow>
         map ga_size (generate_calls (snd (generate lib self p))) = [wh])) \<and>
   (SIZE_CONFIGS lib (size_arg p) = None \<longrightarrow>
      fst (generate lib self p) = Inl (KeyError (size_arg p)) \<and>
      prepare_calls (snd (generate lib self p)) = [] \<and>
      generate_calls (snd (generate lib self p)) = [] \<and>
      cache_video_calls (snd (generate lib self p)) = [])"
  by (auto simp: generate_def Let_def split: option.splits sum.splits prod.splits if_splits)

theorem generate_size_witness:
  "SIZE_CONFIGS example_lib (size_arg (default_params ''a cat'')) = Some (832, 480) \<and>
   map pa_size (prepare_calls (snd (generate example_lib example_generator (default_params ''a cat'')))) =
     [(832, 480)] \<and>
   map ga_size (generate_calls (snd (generate example_lib example_generator (default_params ''a cat'')))) =
     [(832, 480)] \<and>
   SIZE_CONFIGS example_lib (size_arg ((default_params ''a cat'')\<lparr>size_arg := ''100*100''\<rparr>)) = None \<and>
   fst (generate example_lib example_generator ((default_params ''a cat'')\<lparr>size_arg := ''100*100''\<rparr>)) =
     Inl (KeyError ''100*100'') \<and>
   prepare_calls (snd (generate example_lib example_generator
     ((default_params ''a cat'')\<lparr>size_arg := ''100*100''\<rparr>))) = []"
proof -
  have a: "SIZE_CONFIGS example_lib (size_arg (default_params ''a cat'')) = Some (832, 480)"
    by (simp add: example_lib_def default_params_def)
  have b: "SIZE_CONFIGS example_lib (size_arg ((default_params ''a cat'')\<lparr>size_arg := ''100*100''\<rparr>)) = None"
    by (simp add: example_lib_def)
  have c: "map ga_size (generate_calls (snd (generate example_lib example_generator
      (default_params ''a cat'')))) = [(832, 480)]"
    by (simp add: generate_def example_lib_def example_generator_def default_params_def Let_def)
  from generate_size [of example_lib "default_params ''a cat''" example_generator]
       generate_size [of example_lib "(default_params ''a cat'')\<lparr>size_arg := ''100*100''\<rparr>" example_generator]
       a b c
  show ?thesis by simp
qed

section \<open>Properties of generate_video_from_image.py\<close>

subsection \<open>The split at the marker\<close>

lemma contains_length: "contains s sub \<Longrightarrow> length sub \<le> length s"
  by (induction s) (auto dest: prefix_length_le)

lemma split_from_not_Nil: "split_from sep acc s \<noteq> []"
  by (induction sep acc s rule: split_from.induct) simp_all

lemma split_from_absent:
  "\<not> contains s sep \<Longrightarrow> split_from sep acc s = [rev acc @ s]"
  by (induction s arbitrary: acc) auto

lemma prefix_append_short:
  "prefix p (xs @ ys) \<Longrightarrow> length p \<le> length xs \<Longrightarrow> prefix p xs"
proof -
  assume p: "prefix p (xs @ ys)" and l: "length p \<le> length xs"
  from p obtain zs where "xs @ ys = p @ zs" by (auto simp: prefix_def)
  then have "take (length p) (xs @ ys) = p" by simp
  with l have "take (length p) xs = p" by simp
  then show ?thesis by (metis take_is_prefix)
qed

lemma split_from_first:
  assumes "sep \<noteq> []" and "\<not> contains (pre @ butlast sep) sep"
  shows "split_from sep acc (pre @ sep @ post) = (rev acc @ pre) # split_from sep [] post"
  using assms(2)
proof (induction pre arbitrary: acc)
  case Nil
  obtain c sep' where s: "sep = c # sep'" using assms(1) by (cases sep) auto
  then show ?case by simp
next
  case (Cons x pre)
  have "\<not> prefix sep (x # pre @ sep @ post)"
  proof
    assume p: "prefix sep (x # pre @ sep @ post)"
    have "x # pre @ sep @ post = (x # pre @ butlast sep) @ (last sep # post)"
      using assms(1) by simp
    with p have "prefix sep ((x # pre @ butlast sep) @ (last sep # post))" by simp
    moreover have "length sep \<le> length (x # pre @ butlast sep)" using assms(1) by simp
    ultimately have "prefix sep (x # pre @ butlast sep)" by (rule prefix_append_short)
    with Cons.prems show False by simp
  qed
  moreover from Cons.prems have "\<not> contains (pre @ butlast sep) sep" by simp
  ultimately show ?case using Cons.IH [of "x # acc"] by simp
qed

lemma contains_first:
  assumes "sep \<noteq> []"
  shows "contains s sep \<Longrightarrow> \<exists>pre post. s = pre @ sep @ post \<and> \<not> contains (pre @ butlast sep) sep"
proof (induction s)
  case Nil
  then show ?case using assms by simp
next
  case (Cons c cs)
  show ?case
  proof (cases "prefix sep (c # cs)")
    case True
    then obtain post where "c # cs = [] @ sep @ post" by (auto simp: prefix_def)
    moreover have "\<not> contains ([] @ butlast sep) sep"
    proof
      assume "contains ([] @ butlast sep) sep"
      then have "length sep \<le> length (butlast sep)" using contains_length by fastforce
      then have "length sep \<le> length sep - 1" by (simp only: length_butlast)
      moreover have "0 < length sep" using assms by simp
      ultimately show False by linarith
    qed
    ultimately show ?thesis by blast
  next
    case False
    with Cons.prems have "contains cs sep" by simp
    with Cons.IH obtain pre post where
      e: "cs = pre @ sep @ post" and n: "\<not> contains (pre @ butlast sep) sep" by blast
    have "\<not> prefix sep (c # pre @ butlast sep)"
    proof
      assume "prefix sep (c # pre @ butlast sep)"
      moreover have "prefix (c # pre @ butlast sep) (c # pre @ sep @ post)"
        using assms by (metis Cons_prefix_Cons append_butlast_last_id append.assoc prefixI same_prefix_prefix)
      ultimately have "prefix sep (c # pre @ sep @ post)" by (rule prefix_order.trans)
      with False e show False by simp
    qed
    with n have "\<not> contains ((c # pre) @ butlast sep) sep" by simp
    moreover from e have "c # cs = (c # pre) @ sep @ post" by simp
    ultimately show ?thesis by blast
  qed
qed

lemma scan_lines_no_cue: "\<forall>l \<in> set ls. \<not> is_cue_line l \<Longrightarrow> scan_lines ls = []"
  by (induction ls) simp_all

lemma scan_lines_first_cue:
  "\<forall>x \<in> set ls1. \<not> is_cue_line x \<Longrightarrow> is_cue_line l \<Longrightarrow>
   scan_lines (ls1 @ l # ls2) =
     strip (py_replace (py_join '' '' (filter (\<lambda>l. l \<noteq> []) (map strip (l # ls2)))) CUE [])"
  by (induction ls1) simp_all

lemma MARKER_not_Nil: "MARKER \<noteq> []"
  by (simp add: MARKER_def)

lemma parse_absent:
  "\<not> contains content MARKER \<Longrightarrow>
   parse_reasoning content =
     \<lparr>reasoning = take (length content div 2) content,
      original_prompt = drop (length content div 2) content\<rparr>"
  by (simp add: parse_reasoning_def py_split_def split_from_absent)

lemma parse_present:
  assumes "\<not> contains (pre @ butlast MARKER) MARKER"
  shows "reasoning (parse_reasoning (pre @ MARKER @ post)) = strip pre"
    and "\<not> contains post MARKER \<Longrightarrow>
         original_prompt (parse_reasoning (pre @ MARKER @ post)) =
           (if scan_lines (py_split (strip post) [CHR 10]) = [] then strip post
            else scan_lines (py_split (strip post) [CHR 10]))"
proof -
  have s: "py_split (pre @ MARKER @ post) MARKER = pre # split_from MARKER [] post"
    using split_from_first [OF MARKER_not_Nil assms, of "[]" post] by (simp add: py_split_def)
  obtain y ys where y: "split_from MARKER [] post = y # ys"
    using split_from_not_Nil [of MARKER "[]" post] by (cases "split_from MARKER [] post") auto
  show "reasoning (parse_reasoning (pre @ MARKER @ post)) = strip pre"
    using s y by (simp add: parse_reasoning_def Let_def)
  assume "\<not> contains post MARKER"
  then have "split_from MARKER [] post = [post]" by (simp add: split_from_absent)
  with s show "original_prompt (parse_reasoning (pre @ MARKER @ post)) =
           (if scan_lines (py_split (strip post) [CHR 10]) = [] then strip post
            else scan_lines (py_split (strip post) [CHR 10]))"
    by (simp add: parse_reasoning_def Let_def)
qed

text \<open>
  C6, as the specification states it: when the marker is present and no cue line is
  found, the original prompt is the entire remainder. In the text below the remainder
  behind the marker is a line break, \<open>a cat\<close> and a line break, none of its lines is a
  cue line, and the original prompt is \<open>a cat\<close>: the remainder is stripped first.
\<close>

theorem parse_reasoning_remainder_not_verbatim:
  "contains (''thinking'' @ [CHR 10] @ MARKER @ [CHR 10] @ ''a cat'' @ [CHR 10]) MARKER \<and>
   filter is_cue_line (py_split ([CHR 10] @ ''a cat'' @ [CHR 10]) [CHR 10]) = [] \<and>
   original_prompt (parse_reasoning (''thinking'' @ [CHR 10] @ MARKER @ [CHR 10] @ ''a cat'' @ [CHR 10]))
     = ''a cat'' \<and>
   ''a cat'' \<noteq> [CHR 10] @ ''a cat'' @ [CHR 10]"
  by (simp add: parse_reasoning_def MARKER_def py_split_def Let_def strip_def is_space_def
      is_cue_line_def CUE_def startswith_def)

text \<open>
  C6, amended. Without the marker the text is cut at index \<open>len(content) // 2\<close>: the
  first half is the reasoning, the second the original prompt. A text that contains
  the marker has a first occurrence of it, \<open>content = pre + MARKER + post\<close> with no
  occurrence that starts inside \<open>pre\<close>, and for it the reasoning is \<open>pre\<close> stripped.
  When the marker does not occur again in \<open>post\<close>, the original prompt comes from the
  lines of the stripped \<open>post\<close>: without a cue line it is the stripped \<open>post\<close>; with a
  first cue line it is the stripped non-empty lines from that line on, joined with
  blanks, the cue phrase removed and the result stripped, or again the stripped \<open>post\<close>
  when that result is empty.
\<close>

theorem parse_reasoning_split:
  "(\<not> contains content MARKER \<longrightarrow>
      parse_reasoning content =
        \<lparr>reasoning = take (length content div 2) content,
         original_prompt = drop (length content div 2) content\<rparr>) \<and>
   (contains content MARKER \<longrightarrow>
      (\<exists>pre post. content = pre @ MARKER @ post \<and> \<not> contains (pre @ butlast MARKER) MARKER)) \<and>
   (\<forall>pre post. content = pre @ MARKER @ post \<and> \<not> contains (pre @ butlast MARKER) MARKER \<longrightarrow>
      reasoning (parse_reasoning content) = strip pre \<and>
      (\<not> contains post MARKER \<longrightarrow>
         ((\<forall>l \<in> set (py_split (strip post) [CHR 10]). \<not> is_cue_line l) \<longrightarrow>
            original_prompt (parse_reasoning content) = strip post) \<and>
         (\<forall>ls1 l ls2.
            py_split (strip post) [CHR 10] = ls1 @ l # ls2 \<and>
            (\<forall>x \<in> set ls1. \<not> is_cue_line x) \<and> is_cue_line l \<longrightarrow>
            original_prompt (parse_reasoning content) =
              (let found = strip (py_replace
                   (py_join '' '' (filter (\<lambda>l. l \<noteq> []) (map strip (l # ls2)))) CUE [])
               in if found = [] then strip post else found))))"
proof (intro conjI impI allI)
  assume "\<not> contains content MARKER"
  then show "parse_reasoning content =
        \<lparr>reasoning = take (length content div 2) content,
         original_prompt = drop (length content div 2) content\<rparr>"
    by (rule parse_absent)
next
  assume "contains content MARKER"
  then show "\<exists>pre post. content = pre @ MARKER @ post \<and> \<not> contains (pre @ butlast MARKER) MARKER"
    by (rule contains_first [OF MARKER_not_Nil])
next
  fix pre post
  assume "content = pre @ MARKER @ post \<and> \<not> contains (pre @ butlast MARKER) MARKER"
  then show "reasoning (parse_reasoning content) = strip pre"
    using parse_present(1) by simp
next
  fix pre post
  assume d: "content = pre @ MARKER @ post \<and> \<not> contains (pre @ butlast MARKER) MARKER"
    and np: "\<not> contains post MARKER"
    and "\<forall>l \<in> set (py_split (strip post) [CHR 10]). \<not> is_cue_line l"
  then have "scan_lines (py_split (strip post) [CHR 10]) = []" by (simp add: scan_lines_no_cue)
  then show "original_prompt (parse_reasoning content) = strip post"
    using d np parse_present(2) [of pre post] by simp
next
  fix pre post ls1 l ls2
  assume d: "content = pre @ MARKER @ post \<and> \<not> contains (pre @ butlast MARKER) MARKER"
    and np: "\<not> contains post MARKER"
    and h: "py_split (strip post) [CHR 10] = ls1 @ l # ls2 \<and>
            (\<forall>x \<in> set ls1. \<not> is_cue_line x) \<and> is_cue_line l"
  from h have "scan_lines (py_split (strip post) [CHR 10]) =
      strip (py_replace (py_join '' '' (filter (\<lambda>l. l \<noteq> []) (map strip (l # ls2)))) CUE [])"
    using scan_lines_first_cue [of ls1 l ls2] by simp
  then show "original_prompt (parse_reasoning content) =
              (let found = strip (py_replace
                   (py_join '' '' (filter (\<lambda>l. l \<noteq> []) (map strip (l # ls2)))) CUE [])
               in if found = [] then strip post else found)"
    using d np parse_present(2) [of pre post] by (simp add: Let_def)
qed

theorem parse_reasoning_split_witness:
  "\<not> contains ''abcdefg'' MARKER \<and>
   parse_reasoning ''abcdefg'' = \<lparr>reasoning = ''abc'', original_prompt = ''defg''\<rparr> \<and>
   contains (''thinking'' @ [CHR 10] @ MARKER @ [CHR 10] @ ''Generating image with prompt: a cat''
             @ [CHR 10] @ ''  on a mat'' @ [CHR 10]) MARKER \<and>
   reasoning (parse_reasoning (''thinking'' @ [CHR 10] @ MARKER @ [CHR 10] @
      ''Generating image with prompt: a cat'' @ [CHR 10] @ ''  on a mat'' @ [CHR 10])) = ''thinking'' \<and>
   original_prompt (parse_reasoning (''thinking'' @ [CHR 10] @ MARKER @ [CHR 10] @
      ''Generating image with prompt: a cat'' @ [CHR 10] @ ''  on a mat'' @ [CHR 10])) = ''a cat on a mat'' \<and>
   original_prompt (parse_reasoning (''thinking'' @ [CHR 10] @ MARKER @ [CHR 10] @ ''a cat'' @ [CHR 10]))
     = ''a cat''"
proof -
  define pre where "pre = ''thinking'' @ [CHR 10]"
  define post where
    "post = [CHR 10] @ ''Generating image with prompt: a cat'' @ [CHR 10] @ ''  on a mat'' @ [CHR 10]"
  define post2 where "post2 = [CHR 10] @ ''a cat'' @ [CHR 10]"
  define cue where "cue = ''Generating image with prompt: a cat''"
  have a: "\<not> contains ''abcdefg'' MARKER" by (simp add: MARKER_def)
  have f: "\<not> contains (pre @ butlast MARKER) MARKER" by (simp add: MARKER_def pre_def)
  have n: "\<not> contains post MARKER" by (simp add: MARKER_def post_def)
  have n2: "\<not> contains post2 MARKER" by (simp add: MARKER_def post2_def)
  have c: "contains (pre @ MARKER @ post) MARKER" by (simp add: MARKER_def pre_def)
  have sp: "strip pre = ''thinking''" by (simp add: strip_def is_space_def pre_def)
  have l: "py_split (strip post) [CHR 10] = [] @ cue # [''  on a mat'']"
    by (simp add: strip_def is_space_def py_split_def post_def cue_def)
  have q: "is_cue_line cue"
    by (simp add: is_cue_line_def CUE_def cue_def)
  have v: "strip (py_replace (py_join '' '' (filter (\<lambda>l. l \<noteq> [])
             (map strip (cue # [''  on a mat'']))))
             CUE []) = ''a cat on a mat''"
    by (simp add: strip_def is_space_def py_replace_def py_split_def CUE_def cue_def)
  have l2: "\<forall>l \<in> set (py_split (strip post2) [CHR 10]). \<not> is_cue_line l"
    by (simp add: strip_def is_space_def py_split_def is_cue_line_def CUE_def startswith_def post2_def)
  have s2: "strip post2 = ''a cat''" by (simp add: strip_def is_space_def post2_def)
  have e: "\<forall>x \<in> set ([] :: string list). \<not> is_cue_line x" by simp
  have r0: "parse_reasoning ''abcdefg'' = \<lparr>reasoning = ''abc'', original_prompt = ''defg''\<rparr>"
    using parse_reasoning_split [of "''abcdefg''", THEN conjunct1, THEN mp, OF a] by simp
  note p1 = parse_reasoning_split [of "pre @ MARKER @ post", THEN conjunct2, THEN conjunct2,
      THEN spec, THEN spec, THEN mp, OF conjI [OF refl f]]
  note p2 = parse_reasoning_split [of "pre @ MARKER @ post2", THEN conjunct2, THEN conjunct2,
      THEN spec, THEN spec, THEN mp, OF conjI [OF refl f]]
  have r1: "reasoning (parse_reasoning (pre @ MARKER @ post)) = ''thinking''"
    using p1 [THEN conjunct1] sp by simp
  have "original_prompt (parse_reasoning (pre @ MARKER @ post)) =
      (let found = strip (py_replace (py_join '' '' (filter (\<lambda>l. l \<noteq> [])
             (map strip (cue # [''  on a mat''])))) CUE [])
       in if found = [] then strip post else found)"
    by (rule p1 [THEN conjunct2, THEN mp, OF n, THEN conjunct2, THEN spec, THEN spec, THEN spec,
          THEN mp, OF conjI [OF l conjI [OF e q]]])
  then have r2: "original_prompt (parse_reasoning (pre @ MARKER @ post)) = ''a cat on a mat''"
    unfolding v by (simp add: Let_def)
  have "original_prompt (parse_reasoning (pre @ MARKER @ post2)) = strip post2"
    by (rule p2 [THEN conjunct2, THEN mp, OF n2, THEN conjunct1, THEN mp, OF l2])
  then have r3: "original_prompt (parse_reasoning (pre @ MARKER @ post2)) = ''a cat''"
    unfolding s2 .
  from a r0 c r1 r2 r3 show ?thesis
    unfolding pre_def post_def post2_def by simp
qed

subsection \<open>main and the external process\<close>

lemma claude_no_subprocess:
  "subprocess_calls (snd (generate_video_prompt_with_claude env i r p k)) = []"
  by (simp add: generate_video_prompt_with_claude_def Let_def split: sum.splits list.splits)

lemma subprocess_calls_append:
  "subprocess_calls (xs @ ys) = subprocess_calls xs @ subprocess_calls ys"
  by (induction xs rule: subprocess_calls.induct) simp_all

lemma main_no_subprocess: "subprocess_calls (snd (main env args)) = []"
proof -
  have "\<And>x e evs'. generate_video_prompt_with_claude env (arg_image args) (reasoning x)
          (original_prompt x) (if truthy (arg_api_key args) then arg_api_key args
                        else environ env ''ANTHROPIC_API_KEY'') = (e, evs') \<Longrightarrow> subprocess_calls evs' = []"
    using claude_no_subprocess by (metis snd_conv)
  then show ?thesis
    by (auto simp: main_def Let_def subprocess_calls_append split: sum.splits prod.splits)
qed

text \<open>
  What \<open>generate_video\<close> does with the return code of its child: any code other than 0
  leaves through \<open>sys.exit\<close> with that code, code 0 returns, and the run has started
  exactly one child, with the command built from the arguments.
\<close>

lemma generate_video_returncode:
  "(\<forall>rc. subprocess_run env (build_cmd env pr t sz ck od extra) = Inr rc \<and> rc \<noteq> 0 \<longrightarrow>
      fst (generate_video env pr t sz ck od extra) = Inl (SystemExit rc)) \<and>
   (subprocess_run env (build_cmd env pr t sz ck od extra) = Inr 0 \<longrightarrow>
      fst (generate_video env pr t sz ck od extra) = Inr ()) \<and>
   subprocess_calls (snd (generate_video env pr t sz ck od extra)) = [build_cmd env pr t sz ck od extra]"
  by (auto simp: generate_video_def Let_def split: sum.splits)

text \<open>
  \<open>main\<close> asks nothing of \<open>subprocess.run\<close>: whatever the child process would return,
  the run of \<open>main\<close> is the same.
\<close>

lemma read_reasoning_file_ignores_subprocess:
  "read_reasoning_file (env\<lparr>subprocess_run := f\<rparr>) p = read_reasoning_file env p"
  by (simp add: read_reasoning_file_def)

lemma claude_ignores_subprocess:
  "generate_video_prompt_with_claude (env\<lparr>subprocess_run := f\<rparr>) i r p k =
   generate_video_prompt_with_claude env i r p k"
  by (simp add: generate_video_prompt_with_claude_def Let_def split: sum.splits list.splits)

lemma main_ignores_subprocess:
  "main (env\<lparr>subprocess_run := f\<rparr>) args = main env args"
  by (simp add: main_def read_reasoning_file_ignores_subprocess claude_ignores_subprocess
      Let_def split: sum.splits prod.splits)


text \<open>
  C7: when both files exist, enhancement is not skipped, a key is available, the
  reasoning file is read, and \<open>generate_video_prompt_with_claude\<close> raises an exception
  that derives from \<open>Exception\<close> (as every transport and API error does), \<open>main\<close>
  catches it and completes normally, with the original prompt of the file, unchanged,
  as its video prompt.
\<close>

theorem main_claude_failure:
  assumes "path_exists env (arg_image args)" and "path_exists env (arg_text args)"
      and "\<not> arg_skip_claude args"
      and "api_key = (if truthy (arg_api_key args) then arg_api_key args
                      else environ env ''ANTHROPIC_API_KEY'')"
      and "truthy api_key"
      and "read_reasoning_file env (arg_text args) = Inr data"
      and "fst (generate_video_prompt_with_claude env (arg_image args) (reasoning data)
                  (original_prompt data) api_key) = Inl e"
      and "is_Exception e"
  shows "fst (main env args) = Inr (original_prompt data)"
proof -
  obtain evs' where c: "generate_video_prompt_with_claude env (arg_image args) (reasoning data)
      (original_prompt data) api_key = (Inl e, evs')"
    using assms(7)
    by (cases "generate_video_prompt_with_claude env (arg_image args) (reasoning data)
      (original_prompt data) api_key") simp
  show ?thesis
    unfolding main_def Let_def assms(4) [symmetric]
    using assms(1,2,3,5,6,8) c by simp
qed

theorem main_claude_failure_witness:
  "fst (main example_env (example_args\<lparr>arg_api_key := Some ''sk-test''\<rparr>)) = Inr ''Cartoon cat'' \<and>
   length (network_calls (snd (main example_env (example_args\<lparr>arg_api_key := Some ''sk-test''\<rparr>)))) = 1"
proof -
  let ?args = "example_args\<lparr>arg_api_key := Some ''sk-test''\<rparr>"
  let ?data = "\<lparr>reasoning = ''thinking'', original_prompt = ''Cartoon cat''\<rparr>"
  have p: "parse_reasoning (''thinking '' @ MARKER @ [CHR 10] @ ''Cartoon cat'') = ?data"
    by (simp add: parse_reasoning_def MARKER_def py_split_def Let_def strip_def is_space_def
        is_cue_line_def CUE_def startswith_def py_replace_def)
  have 1: "path_exists example_env (arg_image ?args)" "path_exists example_env (arg_text ?args)"
      "\<not> arg_skip_claude ?args"
    by (simp_all add: example_env_def example_args_def)
  have 4: "Some ''sk-test'' = (if truthy (arg_api_key ?args) then arg_api_key ?args
                      else environ example_env ''ANTHROPIC_API_KEY'')"
    by (simp add: example_args_def)
  have 5: "truthy (Some ''sk-test'')" by simp
  have 6: "read_reasoning_file example_env (arg_text ?args) = Inr ?data"
    using p by (simp add: read_reasoning_file_def example_env_def)
  have 7: "fst (generate_video_prompt_with_claude example_env (arg_image ?args) (reasoning ?data)
                  (original_prompt ?data) (Some ''sk-test'')) = Inl (OtherException ''APIConnectionError'')"
    by (simp add: generate_video_prompt_with_claude_def example_env_def Let_def)
  have 8: "is_Exception (OtherException ''APIConnectionError'')" by simp
  have n: "length (network_calls (snd (main example_env ?args))) = 1"
    using 6 by (simp add: main_def Let_def generate_video_prompt_with_claude_def example_env_def
        example_args_def)
  from main_claude_failure [OF 1 4 5 6 7 8] n show ?thesis by simp
qed

text \<open>
  C8: when the image file is missing, or the text file is missing, or neither the flag
  nor the environment variable gives a non-empty key and \<open>--skip-claude\<close> is not set,
  \<open>main\<close> leaves through \<open>sys.exit(1)\<close> and the run has sent no request to the hosted
  model.
\<close>

theorem main_validation_exit:
  assumes "\<not> path_exists env (arg_image args) \<or> \<not> path_exists env (arg_text args) \<or>
           (\<not> truthy (arg_api_key args) \<and> \<not> truthy (environ env ''ANTHROPIC_API_KEY'') \<and>
            \<not> arg_skip_claude args)"
  shows "fst (main env args) = Inl (SystemExit 1) \<and> network_calls (snd (main env args)) = []"
  using assms by (auto simp: main_def Let_def)

theorem main_validation_exit_witness:
  "\<not> truthy (arg_api_key example_args) \<and> \<not> truthy (environ example_env ''ANTHROPIC_API_KEY'') \<and>
   \<not> arg_skip_claude example_args \<and>
   fst (main example_env example_args) = Inl (SystemExit 1) \<and>
   network_calls (snd (main example_env example_args)) = [] \<and>
   \<not> path_exists example_env (arg_image (example_args\<lparr>arg_image := ''missing.png''\<rparr>)) \<and>
   fst (main example_env (example_args\<lparr>arg_image := ''missing.png''\<rparr>)) = Inl (SystemExit 1) \<and>
   network_calls (snd (main example_env (example_args\<lparr>arg_image := ''missing.png''\<rparr>))) = []"
  using main_validation_exit [of example_env example_args]
    main_validation_exit [of example_env "example_args\<lparr>arg_image := ''missing.png''\<rparr>"]
  by (simp add: example_env_def example_args_def)

end
